theory Spec2Isabelle
  imports Complex_Main
begin

section \<open>Python values used by the sources\<close>

text \<open>
  The three modules are Python. \<^verbatim>\<open>literals.py\<close> and \<^verbatim>\<open>rescontrol.py\<close> name their
  interpreter (\<^verbatim>\<open>#!/usr/bin/env python2.7\<close>); \<^verbatim>\<open>minheap.py\<close> names none. The only
  place where the interpreter changes what the modelled code computes is the line
  \<^verbatim>\<open>parent = math.ceil((node / 2) - 1)\<close> of \<^verbatim>\<open>MinHeap.bubbleup\<close>: under Python 3
  \<^verbatim>\<open>/\<close> is true division and \<^verbatim>\<open>math.ceil\<close> returns an \<^verbatim>\<open>int\<close>; under Python 2
  \<^verbatim>\<open>/\<close> on two ints is floor division and \<^verbatim>\<open>math.ceil\<close> returns a \<^verbatim>\<open>float\<close>, which
  a list refuses as an index. The heap is therefore modelled with the interpreter as a
  parameter. \<^verbatim>\<open>minheap.py\<close> uses the result of \<^verbatim>\<open>math.ceil\<close> as a list index and
  takes the ceiling of a quotient, so it is written for Python 3, and the theorems about
  the heap's arithmetic are stated for \<open>Python3\<close>; what the same text does under
  Python 2 is recorded next to them.
\<close>

datatype python = Python2 | Python3

datatype error = IndexError | TypeError | SyntaxError

text \<open>
  A Python number is an \<^verbatim>\<open>int\<close> (unbounded) or a \<^verbatim>\<open>float\<close>. The floats that arise
  are halves of list positions, which a double represents exactly, so a float is
  modelled by its rational value.
\<close>

datatype number = PyInt int | PyFloat rat

fun val :: "number \<Rightarrow> rat" where
  "val (PyInt i) = of_int i"
| "val (PyFloat q) = q"

text \<open>\<^verbatim>\<open>x / 2\<close>\<close>

fun halve :: "python \<Rightarrow> number \<Rightarrow> number" where
  "halve Python2 (PyInt i) = PyInt (i div 2)"
| "halve Python3 (PyInt i) = PyFloat (of_int i / 2)"
| "halve py (PyFloat q) = PyFloat (q / 2)"

text \<open>\<^verbatim>\<open>x - 1\<close>\<close>

fun minus1 :: "number \<Rightarrow> number" where
  "minus1 (PyInt i) = PyInt (i - 1)"
| "minus1 (PyFloat q) = PyFloat (q - 1)"

text \<open>\<^verbatim>\<open>math.ceil(x)\<close>: a float in Python 2, an int in Python 3.\<close>

fun math_ceil :: "python \<Rightarrow> number \<Rightarrow> number" where
  "math_ceil Python2 x = PyFloat (of_int \<lceil>val x\<rceil>)"
| "math_ceil Python3 x = PyInt \<lceil>val x\<rceil>"

text \<open>
  List subscription \<^verbatim>\<open>xs[i]\<close>: a float index raises \<^verbatim>\<open>TypeError\<close>, a negative int
  counts from the end, an int outside the list raises \<^verbatim>\<open>IndexError\<close>.
\<close>

definition position :: "'a list \<Rightarrow> number \<Rightarrow> error + nat" where
  "position xs i =
     (case i of
        PyFloat q \<Rightarrow> Inl TypeError
      | PyInt k \<Rightarrow>
          (if 0 \<le> k \<and> k < int (length xs) then Inr (nat k)
           else if k < 0 \<and> 0 \<le> int (length xs) + k then Inr (nat (int (length xs) + k))
           else Inl IndexError))"

definition getitem :: "'a list \<Rightarrow> number \<Rightarrow> error + 'a" where
  "getitem xs i = (case position xs i of Inl e \<Rightarrow> Inl e | Inr j \<Rightarrow> Inr (xs ! j))"

definition setitem :: "'a list \<Rightarrow> number \<Rightarrow> 'a \<Rightarrow> error + 'a list" where
  "setitem xs i v = (case position xs i of Inl e \<Rightarrow> Inl e | Inr j \<Rightarrow> Inr (xs[j := v]))"

section \<open>\<^verbatim>\<open>minheap.py\<close>: the priority queue\<close>

text \<open>
  A node is the Python list \<^verbatim>\<open>[evaluation, clause, count]\<close>; the heap object holds the
  list \<^verbatim>\<open>tree\<close>. A method takes the heap and returns what it returns or raises,
  together with the heap as the call leaves it (a raise does not undo the mutations
  made before it).
\<close>

type_synonym ('e, 'c, 'k) node = "'e \<times> 'c \<times> 'k"

record ('e, 'c, 'k) MinHeap =
  tree :: "('e, 'c, 'k) node list"

definition init :: "('e, 'c, 'k) MinHeap" where
  "init = \<lparr>tree = []\<rparr>"

definition switch ::
  "('e, 'c, 'k) MinHeap \<Rightarrow> number \<Rightarrow> number \<Rightarrow> (error + unit) \<times> ('e, 'c, 'k) MinHeap" where
  "switch h node1 node2 =
     (case getitem (tree h) node1 of
        Inl e \<Rightarrow> (Inl e, h)
      | Inr temp \<Rightarrow>
          (case getitem (tree h) node2 of
             Inl e \<Rightarrow> (Inl e, h)
           | Inr v \<Rightarrow>
               (case setitem (tree h) node1 v of
                  Inl e \<Rightarrow> (Inl e, h)
                | Inr t1 \<Rightarrow>
                    (case setitem t1 node2 temp of
                       Inl e \<Rightarrow> (Inl e, h\<lparr>tree := t1\<rparr>)
                     | Inr t2 \<Rightarrow> (Inr (), h\<lparr>tree := t2\<rparr>)))))"

text \<open>\<^verbatim>\<open>math.ceil((node / 2) - 1)\<close>\<close>

definition parent :: "python \<Rightarrow> number \<Rightarrow> number" where
  "parent py node = math_ceil py (minus1 (halve py node))"

lemma ceil_half: "\<lceil>(of_int i :: rat) / 2\<rceil> - 1 = (i - 1) div 2"
proof -
  have "\<lceil>(of_int i :: rat) / of_int 2\<rceil> = - (- i div 2)"
    by (rule ceiling_divide_eq_div)
  then have "\<lceil>(of_int i :: rat) / 2\<rceil> = - (- i div 2)" by simp
  then show ?thesis by presburger
qed

lemma parent_Python3: "parent Python3 (PyInt i) = PyInt ((i - 1) div 2)"
  by (simp add: parent_def ceil_half)

lemma parent_Python2: "parent Python2 (PyInt i) = PyFloat (of_int (i div 2 - 1))"
  by (simp add: parent_def)

function bubbleup ::
  "python \<Rightarrow> ('e::linorder, 'c, 'k) MinHeap \<Rightarrow> number \<Rightarrow> (error + unit) \<times> ('e, 'c, 'k) MinHeap" where
  "bubbleup py h node =
     (if val node = 0 then (Inr (), h)
      else
        (let parent = parent py node in
         case getitem (tree h) parent of
           Inl e \<Rightarrow> (Inl e, h)
         | Inr p \<Rightarrow>
             (case getitem (tree h) node of
                Inl e \<Rightarrow> (Inl e, h)
              | Inr n \<Rightarrow>
                  if fst p \<le> fst n then (Inr (), h)
                  else
                    (case switch h node parent of
                       (Inl e, h') \<Rightarrow> (Inl e, h')
                     | (Inr u, h') \<Rightarrow> bubbleup py h' parent))))"
  by pat_completeness auto
termination
proof (relation "measure (\<lambda>(py, h, node). nat \<bar>\<lfloor>val node\<rfloor>\<bar>)", goal_cases)
  case 1
  show ?case by simp
next
  case (2 py h node par p n x h' u)
  show ?case
  proof (cases py)
    case Python2
    show ?thesis
    proof (cases node)
      case (PyInt i)
      with 2 Python2 show ?thesis by (simp add: parent_Python2 getitem_def position_def)
    next
      case (PyFloat q)
      with 2 Python2 show ?thesis by (simp add: parent_def getitem_def position_def)
    qed
  next
    case Python3
    show ?thesis
    proof (cases node)
      case (PyFloat q)
      with 2 show ?thesis by (simp add: getitem_def position_def)
    next
      case (PyInt i)
      have par: "par = PyInt ((i - 1) div 2)"
        using 2(2) Python3 PyInt by (simp add: parent_Python3)
      have "i \<noteq> 0" using 2(1) PyInt by simp
      have "(i - 1) div 2 \<noteq> i"
      proof
        assume "(i - 1) div 2 = i"
        with par PyInt have "par = node" by simp
        with 2(3,4) have "p = n" by simp
        with 2(5) show False by simp
      qed
      with \<open>i \<noteq> 0\<close> have "\<bar>(i - 1) div 2\<bar> < \<bar>i\<bar>" by linarith
      then show ?thesis using par PyInt by simp
    qed
  qed
qed

declare bubbleup.simps [simp del]

definition insert_heap ::
  "python \<Rightarrow> ('e::linorder, 'c, 'k) MinHeap \<Rightarrow> 'c \<Rightarrow> 'k \<Rightarrow> 'e \<Rightarrow>
     (error + unit) \<times> ('e, 'c, 'k) MinHeap" where
  "insert_heap py h clause count evaluation =
     (let clause' = (evaluation, clause, count);
          h1 = h\<lparr>tree := tree h @ [clause']\<rparr>
      in bubbleup py h1 (PyInt (int (length (tree h1)) - 1)))"

lemma setitem_length: "setitem xs i v = Inr ys \<Longrightarrow> length ys = length xs"
  by (auto simp: setitem_def split: sum.splits)

lemma switch_length:
  "switch h a b = (Inr u, h') \<Longrightarrow> length (tree h') = length (tree h)"
  by (auto simp: switch_def split: sum.splits dest!: setitem_length)

text \<open>
  \<^verbatim>\<open>bubbledown\<close> is entered with \<^verbatim>\<open>node = 0\<close> and recurses on child positions, so its
  argument is a natural number; the positions it reads are ints.
\<close>

function bubbledown ::
  "('e::linorder, 'c, 'k) MinHeap \<Rightarrow> nat \<Rightarrow> (error + unit) \<times> ('e, 'c, 'k) MinHeap" where
  "bubbledown h node =
     (let leftchild = 2 * node + 1 in
      if int leftchild > int (length (tree h)) - 1 then (Inr (), h)
      else
        (let rightchild = leftchild + 1 in
         if int rightchild > int (length (tree h)) - 1 then
           (case getitem (tree h) (PyInt (int leftchild)) of
              Inl e \<Rightarrow> (Inl e, h)
            | Inr l \<Rightarrow>
                (case getitem (tree h) (PyInt (int node)) of
                   Inl e \<Rightarrow> (Inl e, h)
                 | Inr n \<Rightarrow>
                     if fst l < fst n then
                       (case setitem (tree h) (PyInt (int leftchild)) n of
                          Inl e \<Rightarrow> (Inl e, h)
                        | Inr t1 \<Rightarrow>
                            (case setitem t1 (PyInt (int node)) l of
                               Inl e \<Rightarrow> (Inl e, h\<lparr>tree := t1\<rparr>)
                             | Inr t2 \<Rightarrow> (Inr (), h\<lparr>tree := t2\<rparr>)))
                     else (Inr (), h)))
         else
           (case getitem (tree h) (PyInt (int leftchild)) of
              Inl e \<Rightarrow> (Inl e, h)
            | Inr l \<Rightarrow>
                (case getitem (tree h) (PyInt (int node)) of
                   Inl e \<Rightarrow> (Inl e, h)
                 | Inr n \<Rightarrow>
                     (case getitem (tree h) (PyInt (int rightchild)) of
                        Inl e \<Rightarrow> (Inl e, h)
                      | Inr r \<Rightarrow>
                          if fst l < fst n \<or> fst r < fst n then
                            (if fst l \<le> fst r then
                               (case switch h (PyInt (int node)) (PyInt (int leftchild)) of
                                  (Inl e, h') \<Rightarrow> (Inl e, h')
                                | (Inr u, h') \<Rightarrow> bubbledown h' leftchild)
                             else
                               (case switch h (PyInt (int node)) (PyInt (int rightchild)) of
                                  (Inl e, h') \<Rightarrow> (Inl e, h')
                                | (Inr u, h') \<Rightarrow> bubbledown h' rightchild))
                          else (Inr (), h))))))"
  by pat_completeness auto
termination
proof (relation "measure (\<lambda>(h, node). length (tree h) - node)", goal_cases)
  case 1
  show ?case by simp
next
  case 2
  then show ?case by (auto dest!: switch_length [OF sym])
next
  case 3
  then show ?case by (auto dest!: switch_length [OF sym])
qed

declare bubbledown.simps [simp del]

text \<open>
  \<^verbatim>\<open>getBest\<close> returns the triple \<^verbatim>\<open>(clause, count, flag)\<close>; \<^verbatim>\<open>None\<close> in the first two
  places is \<open>None\<close> here. In \<^verbatim>\<open>self.tree[0] = self.tree.pop()\<close> Python evaluates the
  right-hand side first: the last node is removed, and only then is position 0 of the
  shortened list assigned.
\<close>

definition getBest ::
  "('e::linorder, 'c, 'k) MinHeap \<Rightarrow>
     (error + ('c option \<times> 'k option \<times> bool)) \<times> ('e, 'c, 'k) MinHeap" where
  "getBest h =
     (if tree h = [] then (Inr (None, None, True), h)
      else
        (case getitem (tree h) (PyInt 0) of
           Inl e \<Rightarrow> (Inl e, h)
         | Inr best \<Rightarrow>
             (let clause = fst (snd best);
                  count = snd (snd best);
                  popped = last (tree h);
                  h1 = h\<lparr>tree := butlast (tree h)\<rparr>
              in case setitem (tree h1) (PyInt 0) popped of
                   Inl e \<Rightarrow> (Inl e, h1)
                 | Inr t2 \<Rightarrow>
                     (case bubbledown (h1\<lparr>tree := t2\<rparr>) 0 of
                        (Inl e, h3) \<Rightarrow> (Inl e, h3)
                      | (Inr u, h3) \<Rightarrow> (Inr (Some clause, Some count, False), h3)))))"

section \<open>\<^verbatim>\<open>literals.py\<close>: atoms and literals\<close>

text \<open>
  Modelled from the spec: the Term collaborator (\<^verbatim>\<open>terms.py\<close> is not among the sources).
  A term is a variable or a function application; \<^verbatim>\<open>literals.py\<close> itself builds compound
  terms as Python lists whose first element is the functor and whose other elements are the
  arguments (\<^verbatim>\<open>list([op, lhs, rhs])\<close>, \<^verbatim>\<open>list(["="]).extend(termArgs(atom))\<close>), which is
  \<open>Fn f args\<close> here. \<open>termFunc\<close> is the spec's \<^verbatim>\<open>functor(term)\<close> (a variable has none),
  \<open>termArgs\<close> its \<^verbatim>\<open>arguments(term)\<close>, and \<open>termEqual\<close> its \<^verbatim>\<open>structurallyEqual\<close>:
  recursive, sensitive to the order of the arguments and to the names of the variables.
\<close>

datatype trm = Var string | Fn string "trm list"

fun termFunc :: "trm \<Rightarrow> string option" where
  "termFunc (Var x) = None"
| "termFunc (Fn f args) = Some f"

fun termArgs :: "trm \<Rightarrow> trm list" where
  "termArgs (Var x) = []"
| "termArgs (Fn f args) = args"

fun termEqual :: "trm \<Rightarrow> trm \<Rightarrow> bool"
  and termListEqual :: "trm list \<Rightarrow> trm list \<Rightarrow> bool" where
  "termEqual (Var x) (Var y) = (x = y)"
| "termEqual (Var x) (Fn g bs) = False"
| "termEqual (Fn f as) (Var y) = False"
| "termEqual (Fn f as) (Fn g bs) = (f = g \<and> termListEqual as bs)"
| "termListEqual [] [] = True"
| "termListEqual [] (b # bs) = False"
| "termListEqual (a # as) [] = False"
| "termListEqual (a # as) (b # bs) = (termEqual a b \<and> termListEqual as bs)"

text \<open>
  \<^verbatim>\<open>class Literal\<close>: the fields \<^verbatim>\<open>negative\<close> and \<^verbatim>\<open>atom\<close>; \<open>Literal\<close> is
  \<^verbatim>\<open>__init__\<close>.
\<close>

record literal =
  negative :: bool
  atom :: trm

definition Literal :: "trm \<Rightarrow> bool \<Rightarrow> literal" where
  "Literal atm neg =
     (if termFunc atm = Some ''!=''
      then \<lparr>negative = \<not> neg, atom = Fn ''='' (termArgs atm)\<rparr>
      else \<lparr>negative = neg, atom = atm\<rparr>)"


definition isNegative :: "literal \<Rightarrow> bool" where
  "isNegative l = negative l"

definition isPositive :: "literal \<Rightarrow> bool" where
  "isPositive l = (\<not> negative l)"

definition isEqual :: "literal \<Rightarrow> literal \<Rightarrow> bool" where
  "isEqual l other = (isNegative l = isNegative other \<and> termEqual (atom l) (atom other))"

definition isOpposite :: "literal \<Rightarrow> literal \<Rightarrow> bool" where
  "isOpposite l other = (isNegative l \<noteq> isNegative other \<and> termEqual (atom l) (atom other))"

text \<open>The substitution is a callable on terms; it is a parameter.\<close>

definition instantiate :: "literal \<Rightarrow> (trm \<Rightarrow> trm) \<Rightarrow> literal" where
  "instantiate l subst = Literal (subst (atom l)) (negative l)"





subsection \<open>Parsing\<close>

text \<open>
  Modelled from the spec: the token stream (\<^verbatim>\<open>lexer.py\<close> is not among the sources). The
  spec gives its interface: look-ahead of the current token's literal text (\<open>LookLit\<close>), a
  test of the current token against a list of token kinds (\<open>TestTok\<close>), and consumption of
  the current token (\<open>Next\<close>). The lexer object is modelled by the tokens it has not yet
  delivered; past the last one it delivers an end-of-input token. \<^verbatim>\<open>literals.py\<close> names
  the kinds \<^verbatim>\<open>EqualSign\<close>, \<^verbatim>\<open>NotEqualSign\<close>, \<^verbatim>\<open>Negation\<close> and \<^verbatim>\<open>Or\<close>; the other kinds are
  those of the term syntax.
\<close>

datatype toktype =
  IdentUpper | IdentLower | DefFunctor | OpenPar | ClosePar | Comma
| EqualSign | NotEqualSign | Negation | Or | IllegalChar | EOFToken

datatype token = Token toktype string

fun tok_type :: "token \<Rightarrow> toktype" where
  "tok_type (Token ty lit) = ty"

fun tok_literal :: "token \<Rightarrow> string" where
  "tok_literal (Token ty lit) = lit"

type_synonym lexer = "token list"

definition Look :: "lexer \<Rightarrow> token" where
  "Look lexer = (case lexer of [] \<Rightarrow> Token EOFToken [] | tok # rest \<Rightarrow> tok)"

definition LookLit :: "lexer \<Rightarrow> string" where
  "LookLit lexer = tok_literal (Look lexer)"

definition TestTok :: "lexer \<Rightarrow> toktype list \<Rightarrow> bool" where
  "TestTok lexer tokens = (tok_type (Look lexer) \<in> set tokens)"

definition Next :: "lexer \<Rightarrow> token \<times> lexer" where
  "Next lexer = (Look lexer, tl lexer)"

text \<open>
  The parsing functions of \<^verbatim>\<open>literals.py\<close>, with \<^verbatim>\<open>parseTerm\<close> (of \<^verbatim>\<open>terms.py\<close>) as a
  parameter: a function from the lexer to a syntax error or a term and the lexer it
  leaves. Each function returns its result together with the lexer as it leaves it.
\<close>

type_synonym termparser = "lexer \<Rightarrow> error + (trm \<times> lexer)"

definition parseAtom :: "termparser \<Rightarrow> lexer \<Rightarrow> error + (trm \<times> lexer)" where
  "parseAtom parseTerm lexer =
     (case parseTerm lexer of
        Inl e \<Rightarrow> Inl e
      | Inr (atm, lexer1) \<Rightarrow>
          if TestTok lexer1 [EqualSign, NotEqualSign] then
            (let (tok, lexer2) = Next lexer1;
                 op = tok_literal tok;
                 lhs = atm
             in case parseTerm lexer2 of
                  Inl e \<Rightarrow> Inl e
                | Inr (rhs, lexer3) \<Rightarrow> Inr (Fn op [lhs, rhs], lexer3))
          else Inr (atm, lexer1))"

definition parseLiteral :: "termparser \<Rightarrow> lexer \<Rightarrow> error + (literal \<times> lexer)" where
  "parseLiteral parseTerm lexer =
     (let (neg, lexer1) =
            (if TestTok lexer [Negation] then (True, snd (Next lexer)) else (False, lexer))
      in case parseAtom parseTerm lexer1 of
           Inl e \<Rightarrow> Inl e
         | Inr (atm, lexer2) \<Rightarrow> Inr (Literal atm neg, lexer2))"

text \<open>
  The \<^verbatim>\<open>while lexer.TestTok(Token.Or)\<close> loop of \<^verbatim>\<open>parseLiteralList\<close>. Whether it ends
  depends on the term parser it is given, so it is a partial function: \<open>None\<close> is a loop
  that does not return.
\<close>

partial_function (option) parseLiteralList_loop ::
  "termparser \<Rightarrow> literal list \<Rightarrow> lexer \<Rightarrow> (error + (literal list \<times> lexer)) option" where
  "parseLiteralList_loop parseTerm res lexer =
     (if TestTok lexer [Or] then
        (let lexer1 = snd (Next lexer) in
         if LookLit lexer1 = ''$false'' then
           parseLiteralList_loop parseTerm res (snd (Next lexer1))
         else
           (case parseLiteral parseTerm lexer1 of
              Inl e \<Rightarrow> Some (Inl e)
            | Inr (lit, lexer2) \<Rightarrow> parseLiteralList_loop parseTerm (res @ [lit]) lexer2))
      else Some (Inr (res, lexer)))"

declare parseLiteralList_loop.simps [code]

definition parseLiteralList ::
  "termparser \<Rightarrow> lexer \<Rightarrow> (error + (literal list \<times> lexer)) option" where
  "parseLiteralList parseTerm lexer =
     (if LookLit lexer = ''$false'' then
        parseLiteralList_loop parseTerm [] (snd (Next lexer))
      else
        (case parseLiteral parseTerm lexer of
           Inl e \<Rightarrow> Some (Inl e)
         | Inr (lit, lexer1) \<Rightarrow> parseLiteralList_loop parseTerm [lit] lexer1))"

subsection \<open>What the print-and-parse round trip asks of the collaborators\<close>








subsection \<open>An instance of the term syntax\<close>


definition ident_char :: "char \<Rightarrow> bool" where
  "ident_char c =
     (c \<in> set ''abcdefghijklmnopqrstuvwxyzABCDEFGHIJKLMNOPQRSTUVWXYZ0123456789_$'')"

definition ident_type :: "string \<Rightarrow> toktype" where
  "ident_type s =
     (if hd s \<in> set ''ABCDEFGHIJKLMNOPQRSTUVWXYZ_'' then IdentUpper
      else if hd s = CHR ''$'' then DefFunctor
      else IdentLower)"

definition flush :: "string \<Rightarrow> token list" where
  "flush acc = (if acc = [] then [] else [Token (ident_type acc) acc])"

definition symbol :: "char \<Rightarrow> token" where
  "symbol c =
     (if c = CHR ''~'' then Token Negation [c]
      else if c = CHR ''|'' then Token Or [c]
      else if c = CHR ''='' then Token EqualSign [c]
      else if c = CHR ''('' then Token OpenPar [c]
      else if c = CHR '')'' then Token ClosePar [c]
      else if c = CHR '','' then Token Comma [c]
      else Token IllegalChar [c])"

fun scan :: "string \<Rightarrow> string \<Rightarrow> token list" where
  "scan acc [] = flush acc"
| "scan acc (c # cs) =
     (if ident_char c then scan (acc @ [c]) cs
      else if c = CHR '' '' then flush acc @ scan [] cs
      else if c = CHR ''!'' then
        (case cs of
           [] \<Rightarrow> flush acc @ [Token IllegalChar [c]]
         | d # ds \<Rightarrow>
             if d = CHR ''='' then flush acc @ Token NotEqualSign [c, d] # scan [] ds
             else flush acc @ Token IllegalChar [c] # scan [] cs)
      else flush acc @ symbol c # scan [] cs)"

definition Lexer :: "string \<Rightarrow> lexer" where
  "Lexer s = scan [] s"

fun parseTermF :: "nat \<Rightarrow> lexer \<Rightarrow> error + (trm \<times> lexer)"
  and parseTermListF :: "nat \<Rightarrow> lexer \<Rightarrow> error + (trm list \<times> lexer)" where
  "parseTermF 0 lexer = Inl SyntaxError"
| "parseTermF (Suc n) lexer =
     (if TestTok lexer [IdentUpper] then Inr (Var (LookLit lexer), snd (Next lexer))
      else if TestTok lexer [IdentLower, DefFunctor] then
        (let name = LookLit lexer; lexer1 = snd (Next lexer) in
         if TestTok lexer1 [OpenPar] then
           (case parseTermListF n (snd (Next lexer1)) of
              Inl e \<Rightarrow> Inl e
            | Inr (args, lexer2) \<Rightarrow>
                if TestTok lexer2 [ClosePar] then Inr (Fn name args, snd (Next lexer2))
                else Inl SyntaxError)
         else Inr (Fn name [], lexer1))
      else Inl SyntaxError)"
| "parseTermListF 0 lexer = Inl SyntaxError"
| "parseTermListF (Suc n) lexer =
     (case parseTermF n lexer of
        Inl e \<Rightarrow> Inl e
      | Inr (t, lexer1) \<Rightarrow>
          if TestTok lexer1 [Comma] then
            (case parseTermListF n (snd (Next lexer1)) of
               Inl e \<Rightarrow> Inl e
             | Inr (ts, lexer2) \<Rightarrow> Inr (t # ts, lexer2))
          else Inr ([t], lexer1))"

definition parseTerm :: "lexer \<Rightarrow> error + (trm \<times> lexer)" where
  "parseTerm lexer = parseTermF (Suc (length lexer)) lexer"

section \<open>\<^verbatim>\<open>rescontrol.py\<close>: all resolvents and all factors of a clause\<close>

text \<open>
  Modelled from the spec: the Clause collaborator (\<^verbatim>\<open>clauses.py\<close> is not among the
  sources), which exposes the literal count and indexed access to the literals.
  \<^verbatim>\<open>rescontrol.py\<close> calls \<^verbatim>\<open>len(clause)\<close>, so the class defines \<^verbatim>\<open>__len__\<close>, and the truth
  value Python gives such an object in \<^verbatim>\<open>if fact:\<close> is that its length is not zero
  (\<open>truthy\<close>). \<open>getLiteral\<close> is only called with positions below \<open>len\<close>.
\<close>

record clause =
  literals :: "literal list"

definition len :: "clause \<Rightarrow> nat" where
  "len c = length (literals c)"

definition getLiteral :: "clause \<Rightarrow> nat \<Rightarrow> literal" where
  "getLiteral c pos = literals c ! pos"

definition truthy :: "clause \<Rightarrow> bool" where
  "truthy c = (len c \<noteq> 0)"

text \<open>
  The inference rules \<^verbatim>\<open>resolution\<close> and \<^verbatim>\<open>factor\<close> (of \<^verbatim>\<open>resolution.py\<close>) and the
  clause set's \<^verbatim>\<open>getResolutionLiterals\<close> are parameters; a rule returns a clause or
  \<^verbatim>\<open>None\<close>. The two \<^verbatim>\<open>for\<close> loops of each function are the two recursive functions
  before it, with the list \<^verbatim>\<open>res\<close> as accumulator.
\<close>

type_synonym resolution_rule = "clause \<Rightarrow> nat \<Rightarrow> clause \<Rightarrow> nat \<Rightarrow> clause option"
type_synonym factor_rule = "clause \<Rightarrow> nat \<Rightarrow> nat \<Rightarrow> clause option"
type_synonym clauseset = "literal \<Rightarrow> (clause \<times> nat) list"

fun resolvents_of_partners ::
  "resolution_rule \<Rightarrow> clause \<Rightarrow> nat \<Rightarrow> (clause \<times> nat) list \<Rightarrow> clause list \<Rightarrow> clause list" where
  "resolvents_of_partners resolution clause lit [] res = res"
| "resolvents_of_partners resolution clause lit ((cl2, lit2) # partners) res =
     (let resolvent = resolution clause lit cl2 lit2 in
      if resolvent \<noteq> None
      then resolvents_of_partners resolution clause lit partners (res @ [the resolvent])
      else resolvents_of_partners resolution clause lit partners res)"

fun resolvents_of_literals ::
  "resolution_rule \<Rightarrow> clauseset \<Rightarrow> clause \<Rightarrow> nat list \<Rightarrow> clause list \<Rightarrow> clause list" where
  "resolvents_of_literals resolution getResolutionLiterals clause [] res = res"
| "resolvents_of_literals resolution getResolutionLiterals clause (lit # lits) res =
     (let partners = getResolutionLiterals (getLiteral clause lit) in
      resolvents_of_literals resolution getResolutionLiterals clause lits
        (resolvents_of_partners resolution clause lit partners res))"

definition computeAllResolvents ::
  "resolution_rule \<Rightarrow> clause \<Rightarrow> clauseset \<Rightarrow> clause list" where
  "computeAllResolvents resolution clause getResolutionLiterals =
     resolvents_of_literals resolution getResolutionLiterals clause [0..<len clause] []"

text \<open>The truth value of what \<^verbatim>\<open>factor\<close> returned: \<^verbatim>\<open>None\<close> is false.\<close>

definition is_true :: "clause option \<Rightarrow> bool" where
  "is_true x = (case x of None \<Rightarrow> False | Some c \<Rightarrow> truthy c)"

fun factors_inner ::
  "factor_rule \<Rightarrow> clause \<Rightarrow> nat \<Rightarrow> nat list \<Rightarrow> clause list \<Rightarrow> clause list" where
  "factors_inner factor clause i [] res = res"
| "factors_inner factor clause i (j # js) res =
     (let fact' = factor clause i j in
      if is_true fact'
      then factors_inner factor clause i js (res @ [the fact'])
      else factors_inner factor clause i js res)"

fun factors_outer ::
  "factor_rule \<Rightarrow> clause \<Rightarrow> nat list \<Rightarrow> clause list \<Rightarrow> clause list" where
  "factors_outer factor clause [] res = res"
| "factors_outer factor clause (i # is) res =
     factors_outer factor clause is (factors_inner factor clause i [i + 1..<len clause] res)"

definition computeAllFactors :: "factor_rule \<Rightarrow> clause \<Rightarrow> clause list" where
  "computeAllFactors factor clause = factors_outer factor clause [0..<len clause] []"

text \<open>
  The same two loops, recording next to \<^verbatim>\<open>res\<close> the arguments \<open>(i, j)\<close> of every call
  of \<^verbatim>\<open>factor\<close>, in the order of the calls.
\<close>

type_synonym factor_run = "clause list \<times> (nat \<times> nat) list"

fun traced_inner ::
  "factor_rule \<Rightarrow> clause \<Rightarrow> nat \<Rightarrow> nat list \<Rightarrow> factor_run \<Rightarrow> factor_run" where
  "traced_inner factor clause i [] run = run"
| "traced_inner factor clause i (j # js) (res, calls) =
     (let fact' = factor clause i j;
          calls' = calls @ [(i, j)] in
      if is_true fact'
      then traced_inner factor clause i js (res @ [the fact'], calls')
      else traced_inner factor clause i js (res, calls'))"

fun traced_outer ::
  "factor_rule \<Rightarrow> clause \<Rightarrow> nat list \<Rightarrow> factor_run \<Rightarrow> factor_run" where
  "traced_outer factor clause [] run = run"
| "traced_outer factor clause (i # is) run =
     traced_outer factor clause is (traced_inner factor clause i [i + 1..<len clause] run)"

definition computeAllFactors_traced :: "factor_rule \<Rightarrow> clause \<Rightarrow> factor_run" where
  "computeAllFactors_traced factor clause =
     traced_outer factor clause [0..<len clause] ([], [])"

text \<open>The pairs \<open>(i, j)\<close> with \<open>i < j < n\<close>, in the order of the two loops.\<close>

definition pairs :: "nat \<Rightarrow> (nat \<times> nat) list" where
  "pairs n = concat (map (\<lambda>i. map (Pair i) [i + 1..<n]) [0..<n])"

text \<open>Concrete inputs: the empty clause, a clause of two literals, a list of three literals.\<close>

definition empty_clause :: clause where
  "empty_clause = \<lparr>literals = []\<rparr>"

definition two_literals :: clause where
  "two_literals = \<lparr>literals = [Literal (Fn ''p'' [Var ''X'']) False, Literal (Fn ''p'' [Fn ''a'' []]) False]\<rparr>"

text \<open>
  A factoring rule that answers a pair of positions with the clause less its literal at
  the second position; a resolution rule that answers with the partner clause when the
  partner literal is at position 1 and with \<^verbatim>\<open>None\<close> otherwise; a clause set that yields
  both literals of \<open>two_literals\<close> as partners of every literal.
\<close>

definition without_literal :: factor_rule where
  "without_literal clause i j =
     (if i < j \<and> j < len clause
      then Some \<lparr>literals = take j (literals clause) @ drop (Suc j) (literals clause)\<rparr>
      else None)"

definition second_only :: resolution_rule where
  "second_only clause lit cl2 lit2 = (if lit2 = 1 then Some cl2 else None)"

definition both_positions :: clauseset where
  "both_positions l = [(two_literals, 0), (two_literals, 1)]"


section \<open>The priority queue: results\<close>

text \<open>
  C1. The claim: after any inserts into a fresh heap, repeated \<^verbatim>\<open>getBest()\<close> returns the
  nodes in non-decreasing order of evaluation, and the exhaustion signal comes only after
  as many successful \<^verbatim>\<open>getBest()\<close> calls as there were inserts; in particular
  \<^verbatim>\<open>getBest()\<close> on a heap of any size \<open>n \<ge> 1\<close> returns a minimum node without failing.
  The code does not do this for \<open>n = 1\<close>: one insert into a fresh heap succeeds and
  leaves the single node, and \<^verbatim>\<open>getBest()\<close> on that heap raises \<^verbatim>\<open>IndexError\<close>
  (\<^verbatim>\<open>self.tree.pop()\<close> empties the list before \<^verbatim>\<open>self.tree[0]\<close> is assigned) and leaves
  the heap empty, so that the next \<^verbatim>\<open>getBest()\<close> signals exhaustion after no successful
  extraction at all. This holds under either interpreter.
\<close>

theorem getBest_single_node_raises:
  "insert_heap py init c k e = (Inr (), \<lparr>tree = [(e, c, k)]\<rparr>)
   \<and> getBest \<lparr>tree = [(e, c, k)]\<rparr> = (Inl IndexError, \<lparr>tree = []\<rparr>)
   \<and> getBest \<lparr>tree = ([] :: ('e::linorder, 'c, 'k) node list)\<rparr>
       = (Inr (None, None, True), \<lparr>tree = []\<rparr>)"
  by (simp add: insert_heap_def init_def getBest_def getitem_def setitem_def position_def bubbleup.simps)


text \<open>
  C8. \<^verbatim>\<open>getBest()\<close> on an empty heap raises nothing, leaves the heap as it is and
  returns \<^verbatim>\<open>(None, None, True)\<close>; whenever \<^verbatim>\<open>getBest()\<close> returns, the flag in the third
  place is \<open>True\<close> exactly when the heap was empty, so the signal differs from every
  result that carries a clause.
\<close>

theorem getBest_empty_signal:
  "(tree h = [] \<longrightarrow> getBest h = (Inr (None, None, True), h))
   \<and> (\<forall>c k flag h'. getBest h = (Inr (c, k, flag), h') \<longrightarrow> (flag \<longleftrightarrow> tree h = []))"
  by (auto simp: getBest_def Let_def split: sum.splits prod.splits)

theorem getBest_empty_signal_witness:
  "tree \<lparr>tree = ([] :: (int, string, nat) node list)\<rparr> = []
   \<and> getBest \<lparr>tree = ([] :: (int, string, nat) node list)\<rparr>
       = (Inr (None, None, True), \<lparr>tree = []\<rparr>)
   \<and> getBest \<lparr>tree = [(1 :: int, ''c1'', 1 :: nat), (2, ''c2'', 2)]\<rparr>
       = (Inr (Some ''c1'', Some 1, False), \<lparr>tree = [(2, ''c2'', 2)]\<rparr>)
   \<and> (False \<longleftrightarrow> tree \<lparr>tree = [(1 :: int, ''c1'', 1 :: nat), (2, ''c2'', 2)]\<rparr> = [])"
  using getBest_empty_signal [of "\<lparr>tree = ([] :: (int, string, nat) node list)\<rparr>"]
  by (simp add: getBest_def getitem_def setitem_def position_def bubbledown.simps)

section \<open>Literals: results\<close>

lemma termEqual_iff: "termEqual s t \<longleftrightarrow> s = t"
  and termListEqual_iff: "termListEqual ss ts \<longleftrightarrow> ss = ts"
  by (induction s t and ss ts rule: termEqual_termListEqual.induct) auto

lemma Literal_normalized: "termFunc (atom (Literal atm s)) \<noteq> Some ''!=''"
  by (simp add: Literal_def)

lemma parseLiteral_normalized:
  "parseLiteral pT lexer = Inr (lit, lexer') \<Longrightarrow> termFunc (atom lit) \<noteq> Some ''!=''"
  by (auto simp: parseLiteral_def Literal_normalized split: if_splits sum.splits prod.splits)

lemma loop_normalized_aux:
  "parseLiteralList_loop pT res lexer = Some y \<Longrightarrow>
   (\<forall>l \<in> set res. termFunc (atom l) \<noteq> Some ''!='') \<longrightarrow>
   (\<forall>lits lexer'. y = Inr (lits, lexer') \<longrightarrow> (\<forall>l \<in> set lits. termFunc (atom l) \<noteq> Some ''!=''))"
proof (erule parseLiteralList_loop.raw_induct [rotated 1], goal_cases)
  case (1 loop pT res lexer y)
  show ?case
  proof (cases "TestTok lexer [Or]")
    case False
    with 1(2) have "y = Inr (res, lexer)"
      by simp
    then show ?thesis
      by simp
  next
    case True
    show ?thesis
    proof (cases "LookLit (snd (Next lexer)) = ''$false''")
      case skip: True
      with True 1(2) have "loop pT res (snd (Next (snd (Next lexer)))) = Some y"
        by (simp add: Let_def)
      from 1(1) [OF this] show ?thesis .
    next
      case lit: False
      show ?thesis
      proof (cases "parseLiteral pT (snd (Next lexer))")
        case (Inl e)
        with True lit 1(2) have "y = Inl e"
          by (simp add: Let_def)
        then show ?thesis
          by simp
      next
        case (Inr p)
        obtain l lexer2 where p: "p = (l, lexer2)" by (cases p)
        with True lit Inr 1(2) have "loop pT (res @ [l]) lexer2 = Some y"
          by (simp add: Let_def)
        note IH = 1(1) [OF this]
        have "parseLiteral pT (snd (Next lexer)) = Inr (l, lexer2)"
          using Inr p by simp
        then have "termFunc (atom l) \<noteq> Some ''!=''"
          by (rule parseLiteral_normalized)
        with IH show ?thesis
          by simp
      qed
    qed
  qed
qed

lemma loop_normalized:
  assumes "parseLiteralList_loop pT res lexer = Some (Inr (lits, lexer'))"
    and "\<forall>l \<in> set res. termFunc (atom l) \<noteq> Some ''!=''"
  shows "\<forall>l \<in> set lits. termFunc (atom l) \<noteq> Some ''!=''"
  using loop_normalized_aux [OF assms(1)] assms(2) by blast

lemma parseLiteralList_normalized:
  assumes "parseLiteralList pT lexer = Some (Inr (lits, lexer'))"
  shows "\<forall>l \<in> set lits. termFunc (atom l) \<noteq> Some ''!=''"
proof (cases "LookLit lexer = ''$false''")
  case True
  with assms have "parseLiteralList_loop pT [] (snd (Next lexer)) = Some (Inr (lits, lexer'))"
    by (simp add: parseLiteralList_def)
  then show ?thesis by (rule loop_normalized) simp
next
  case False
  show ?thesis
  proof (cases "parseLiteral pT lexer")
    case (Inl e)
    with False assms show ?thesis by (simp add: parseLiteralList_def)
  next
    case (Inr p)
    obtain l lexer1 where p: "p = (l, lexer1)" by (cases p)
    with False Inr assms have "parseLiteralList_loop pT [l] lexer1 = Some (Inr (lits, lexer'))"
      by (simp add: parseLiteralList_def)
    moreover have "\<forall>x \<in> set [l]. termFunc (atom x) \<noteq> Some ''!=''"
      using parseLiteral_normalized [of pT lexer l lexer1] Inr p by simp
    ultimately show ?thesis by (rule loop_normalized)
  qed
qed

text \<open>
  C3. Constructing a literal from an atom \<^verbatim>\<open>!=(a, b)\<close> with sign \<open>s\<close> gives the atom
  \<^verbatim>\<open>=(a, b)\<close>, arguments in the same order, with sign \<open>\<not> s\<close>; constructing from an atom
  with any other head gives the atom and the sign unchanged; and no literal that the
  constructor, \<^verbatim>\<open>instantiate\<close> (for any substitution), \<^verbatim>\<open>parseLiteral\<close> or
  \<^verbatim>\<open>parseLiteralList\<close> (for any term parser and any input) returns has an atom headed by
  \<^verbatim>\<open>!=\<close>.
\<close>

theorem literal_normalization:
  "Literal (Fn ''!='' [a, b]) s = \<lparr>negative = \<not> s, atom = Fn ''='' [a, b]\<rparr>
   \<and> (f \<noteq> ''!='' \<longrightarrow> Literal (Fn f args) s = \<lparr>negative = s, atom = Fn f args\<rparr>)
   \<and> termFunc (atom (Literal atm s)) \<noteq> Some ''!=''
   \<and> termFunc (atom (instantiate l subst)) \<noteq> Some ''!=''
   \<and> (parseLiteral pT lexer = Inr (lit, lexer') \<longrightarrow> termFunc (atom lit) \<noteq> Some ''!='')
   \<and> (parseLiteralList pT lexer = Some (Inr (lits, lexer'')) \<longrightarrow>
        (\<forall>l \<in> set lits. termFunc (atom l) \<noteq> Some ''!=''))"
proof (intro conjI impI)
  show "Literal (Fn ''!='' [a, b]) s = \<lparr>negative = \<not> s, atom = Fn ''='' [a, b]\<rparr>"
    by (simp add: Literal_def)
  show "Literal (Fn f args) s = \<lparr>negative = s, atom = Fn f args\<rparr>" if "f \<noteq> ''!=''"
    using that by (simp add: Literal_def)
  show "termFunc (atom (Literal atm s)) \<noteq> Some ''!=''"
    by (rule Literal_normalized)
  show "termFunc (atom (instantiate l subst)) \<noteq> Some ''!=''"
    unfolding instantiate_def by (rule Literal_normalized)
  show "termFunc (atom lit) \<noteq> Some ''!=''" if "parseLiteral pT lexer = Inr (lit, lexer')"
    using that by (rule parseLiteral_normalized)
  show "\<forall>l \<in> set lits. termFunc (atom l) \<noteq> Some ''!=''"
    if "parseLiteralList pT lexer = Some (Inr (lits, lexer''))"
    using that by (rule parseLiteralList_normalized)
qed

theorem literal_normalization_witness:
  "''p'' \<noteq> ''!=''
   \<and> Literal (Fn ''p'' [Var ''X'']) True = \<lparr>negative = True, atom = Fn ''p'' [Var ''X'']\<rparr>
   \<and> parseLiteral parseTerm (Lexer ''a!=b'')
       = Inr (\<lparr>negative = True, atom = Fn ''='' [Fn ''a'' [], Fn ''b'' []]\<rparr>, [])
   \<and> termFunc (atom \<lparr>negative = True, atom = Fn ''='' [Fn ''a'' [], Fn ''b'' []]\<rparr>) \<noteq> Some ''!=''
   \<and> parseLiteralList parseTerm (Lexer ''a!=b'')
       = Some (Inr ([\<lparr>negative = True, atom = Fn ''='' [Fn ''a'' [], Fn ''b'' []]\<rparr>], []))
   \<and> list_all (\<lambda>l. termFunc (atom l) \<noteq> Some ''!='')
        [\<lparr>negative = True, atom = Fn ''='' [Fn ''a'' [], Fn ''b'' []]\<rparr>]"
proof -
  have e1: "parseLiteral parseTerm (Lexer ''a!=b'')
       = Inr (\<lparr>negative = True, atom = Fn ''='' [Fn ''a'' [], Fn ''b'' []]\<rparr>, [])"
    by code_simp
  have e2: "parseLiteralList parseTerm (Lexer ''a!=b'')
       = Some (Inr ([\<lparr>negative = True, atom = Fn ''='' [Fn ''a'' [], Fn ''b'' []]\<rparr>], []))"
    by code_simp
  show ?thesis
    using e1 e2
      literal_normalization [where f = "''p''" and args = "[Var ''X'']" and s = True
        and pT = parseTerm and lexer = "Lexer ''a!=b''"
        and lit = "\<lparr>negative = True, atom = Fn ''='' [Fn ''a'' [], Fn ''b'' []]\<rparr>"
        and lexer' = "[]"
        and lits = "[\<lparr>negative = True, atom = Fn ''='' [Fn ''a'' [], Fn ''b'' []]\<rparr>]"
        and lexer'' = "[]"]
    by simp
qed

text \<open>
  C7. \<^verbatim>\<open>a.isOpposite(b)\<close> and \<^verbatim>\<open>b.isOpposite(a)\<close> are equal for all literals, and no
  literal is opposite to itself.
\<close>

theorem isOpposite_symmetric_irreflexive:
  "isOpposite a b = isOpposite b a \<and> \<not> isOpposite a a"
proof
  show "isOpposite a b = isOpposite b a"
    unfolding isOpposite_def termEqual_iff by metis
  show "\<not> isOpposite a a"
    unfolding isOpposite_def by simp
qed

text \<open>
  C9. \<^verbatim>\<open>isEqual\<close> holds exactly when the signs agree and the atoms are the same term,
  argument order included; it does not identify the two orientations of an equation:
  the literals \<^verbatim>\<open>a = b\<close> and \<^verbatim>\<open>b = a\<close> of one sign are \<^verbatim>\<open>isEqual\<close> only if \<open>a\<close> and
  \<open>b\<close> are the same term, and for the constants \<^verbatim>\<open>a\<close> and \<^verbatim>\<open>b\<close> they are not.
\<close>

theorem isEqual_order_sensitive:
  "(isEqual (Literal (Fn ''='' [a, b]) s) (Literal (Fn ''='' [b, a]) s) \<longleftrightarrow> a = b)
   \<and> \<not> isEqual (Literal (Fn ''='' [Fn ''a'' [], Fn ''b'' []]) s)
               (Literal (Fn ''='' [Fn ''b'' [], Fn ''a'' []]) s)
   \<and> (isEqual l other \<longleftrightarrow> negative l = negative other \<and> atom l = atom other)"
proof (intro conjI)
  show "isEqual (Literal (Fn ''='' [a, b]) s) (Literal (Fn ''='' [b, a]) s) \<longleftrightarrow> a = b"
    unfolding isEqual_def isNegative_def Literal_def termEqual_iff by simp metis
  show "\<not> isEqual (Literal (Fn ''='' [Fn ''a'' [], Fn ''b'' []]) s)
               (Literal (Fn ''='' [Fn ''b'' [], Fn ''a'' []]) s)"
    unfolding isEqual_def isNegative_def Literal_def termEqual_iff by simp
  show "isEqual l other \<longleftrightarrow> negative l = negative other \<and> atom l = atom other"
    unfolding isEqual_def isNegative_def termEqual_iff by simp
qed

section \<open>Parsing and printing: results\<close>

text \<open>
  C6. With the term syntax of the instance, the text \<^verbatim>\<open>~a=b\<close> and the text \<^verbatim>\<open>a!=b\<close>
  parse to the same negative literal with atom \<^verbatim>\<open>=(a, b)\<close>, and the text \<^verbatim>\<open>~a!=b\<close> and
  the text \<^verbatim>\<open>a=b\<close> to the same positive one; each pair satisfies \<^verbatim>\<open>isEqual\<close>.
\<close>

theorem tilde_eq_is_neq:
  "parseLiteral parseTerm (Lexer ''~a=b'') =
     Inr (\<lparr>negative = True, atom = Fn ''='' [Fn ''a'' [], Fn ''b'' []]\<rparr>, [])
   \<and> parseLiteral parseTerm (Lexer ''a!=b'') =
     Inr (\<lparr>negative = True, atom = Fn ''='' [Fn ''a'' [], Fn ''b'' []]\<rparr>, [])
   \<and> isEqual \<lparr>negative = True, atom = Fn ''='' [Fn ''a'' [], Fn ''b'' []]\<rparr>
              \<lparr>negative = True, atom = Fn ''='' [Fn ''a'' [], Fn ''b'' []]\<rparr>
   \<and> parseLiteral parseTerm (Lexer ''~a!=b'') =
     Inr (\<lparr>negative = False, atom = Fn ''='' [Fn ''a'' [], Fn ''b'' []]\<rparr>, [])
   \<and> parseLiteral parseTerm (Lexer ''a=b'') =
     Inr (\<lparr>negative = False, atom = Fn ''='' [Fn ''a'' [], Fn ''b'' []]\<rparr>, [])
   \<and> isEqual \<lparr>negative = False, atom = Fn ''='' [Fn ''a'' [], Fn ''b'' []]\<rparr>
              \<lparr>negative = False, atom = Fn ''='' [Fn ''a'' [], Fn ''b'' []]\<rparr>"
  by code_simp

lemma TestTok_Cons [simp]: "TestTok (Token ty lit # rest) kinds = (ty \<in> set kinds)"
  by (simp add: TestTok_def Look_def)

lemma TestTok_Nil [simp]: "TestTok [] kinds = (EOFToken \<in> set kinds)"
  by (simp add: TestTok_def Look_def)

lemma Next_Cons [simp]: "Next (tok # rest) = (tok, rest)"
  by (simp add: Next_def Look_def)

lemma LookLit_Cons [simp]: "LookLit (Token ty lit # rest) = lit"
  by (simp add: LookLit_def Look_def)

















section \<open>Resolvents and factors: results\<close>

lemma resolvents_of_partners_eq:
  "resolvents_of_partners resolution clause lit partners res =
   res @ map the (filter (\<lambda>r. r \<noteq> None)
                    (map (\<lambda>(cl2, lit2). resolution clause lit cl2 lit2) partners))"
  by (induction partners arbitrary: res) (auto simp: Let_def)

lemma resolvents_of_literals_eq:
  "resolvents_of_literals resolution cs clause lits res =
   res @ concat (map (\<lambda>lit. map the (filter (\<lambda>r. r \<noteq> None)
                    (map (\<lambda>(cl2, lit2). resolution clause lit cl2 lit2)
                       (cs (getLiteral clause lit))))) lits)"
  by (induction lits arbitrary: res) (simp_all add: resolvents_of_partners_eq)

lemma factors_inner_eq:
  "factors_inner factor clause i js res =
   res @ map the (filter is_true (map (\<lambda>j. factor clause i j) js))"
  by (induction js arbitrary: res) (simp_all add: Let_def)

lemma factors_outer_eq:
  "factors_outer factor clause is res =
   res @ concat (map (\<lambda>i. map the (filter is_true
                    (map (\<lambda>j. factor clause i j) [i + 1..<len clause]))) is)"
  by (induction "is" arbitrary: res) (simp_all add: factors_inner_eq)

lemma traced_inner_eq:
  "traced_inner factor clause i js (res, calls) =
   (factors_inner factor clause i js res, calls @ map (Pair i) js)"
  by (induction js arbitrary: res calls) (simp_all add: Let_def)

lemma traced_outer_eq:
  "traced_outer factor clause is (res, calls) =
   (factors_outer factor clause is res,
    calls @ concat (map (\<lambda>i. map (Pair i) [i + 1..<len clause]) is))"
  by (induction "is" arbitrary: res calls) (simp_all add: traced_inner_eq)

lemma set_pairs: "set (pairs n) = {(i, j). i < j \<and> j < n}"
  by (auto simp: pairs_def image_iff)

lemma distinct_pairs: "distinct (pairs n)"
  unfolding pairs_def
proof (rule distinct_concat, goal_cases)
  case 1
  have "inj_on (\<lambda>i. map (Pair i) [i + 1..<n]) (set [0..<n])"
  proof (rule inj_onI)
    fix x y
    assume "x \<in> set [0..<n]" "y \<in> set [0..<n]"
      and eq: "map (Pair x) [x + 1..<n] = map (Pair y) [y + 1..<n]"
    from eq have "length (map (Pair x) [x + 1..<n]) = length (map (Pair y) [y + 1..<n])"
      by simp
    with \<open>x \<in> set [0..<n]\<close> \<open>y \<in> set [0..<n]\<close> show "x = y" by simp
  qed
  then show ?case by (simp add: distinct_map)
next
  case (2 ys)
  then show ?case by (auto simp: distinct_map inj_on_def)
next
  case (3 ys zs)
  then show ?case by auto
qed

lemma sum_below: "(\<Sum>i<n. i) * 2 = n * (n - 1)" for n :: nat
proof (induction n)
  case 0
  show ?case by simp
next
  case (Suc n)
  then show ?case by (cases n) (simp_all add: algebra_simps)
qed

lemma length_pairs: "length (pairs n) = n * (n - 1) div 2"
proof -
  have "length (pairs n) = (\<Sum>i<n. n - Suc i)"
    by (simp add: pairs_def length_concat comp_def sum_list_sum_nth atLeast0LessThan)
  also have "\<dots> = (\<Sum>i<n. i)"
    by (rule sum.nat_diff_reindex)
  also have "\<dots> = n * (n - 1) div 2"
    using sum_below [of n] by simp
  finally show ?thesis .
qed

lemma kept_plus_skipped:
  "length (filter (\<lambda>r. r \<noteq> None) (map (\<lambda>(cl2, lit2). f cl2 lit2) ps)) +
   length (filter (\<lambda>(cl2, lit2). f cl2 lit2 = None) ps) = length ps"
  by (induction ps) auto

lemma length_resolvents:
  "length (resolvents_of_literals resolution cs clause lits []) +
     (\<Sum>lit\<leftarrow>lits. length (filter (\<lambda>(cl2, lit2). resolution clause lit cl2 lit2 = None)
                       (cs (getLiteral clause lit)))) =
   (\<Sum>lit\<leftarrow>lits. length (cs (getLiteral clause lit)))"
proof -
  have "length (resolvents_of_literals resolution cs clause lits []) =
      (\<Sum>lit\<leftarrow>lits. length (filter (\<lambda>r. r \<noteq> None)
          (map (\<lambda>(cl2, lit2). resolution clause lit cl2 lit2) (cs (getLiteral clause lit)))))"
    by (simp only: resolvents_of_literals_eq append_Nil length_concat map_map comp_def length_map)
  then have "length (resolvents_of_literals resolution cs clause lits []) +
     (\<Sum>lit\<leftarrow>lits. length (filter (\<lambda>(cl2, lit2). resolution clause lit cl2 lit2 = None)
                       (cs (getLiteral clause lit)))) =
     (\<Sum>lit\<leftarrow>lits.
        length (filter (\<lambda>r. r \<noteq> None)
          (map (\<lambda>(cl2, lit2). resolution clause lit cl2 lit2) (cs (getLiteral clause lit)))) +
        length (filter (\<lambda>(cl2, lit2). resolution clause lit cl2 lit2 = None)
                       (cs (getLiteral clause lit))))"
    by (simp only: sum_list_addf)
  then show ?thesis by (simp only: kept_plus_skipped)
qed

lemma factors_as_filter:
  "computeAllFactors factor clause =
     map (\<lambda>(i, j). the (factor clause i j))
       (filter (\<lambda>(i, j). is_true (factor clause i j)) (pairs (len clause)))"
  by (simp add: computeAllFactors_def factors_outer_eq pairs_def map_concat filter_concat
      comp_def filter_map)

lemma traced_as_pairs:
  "computeAllFactors_traced factor clause = (computeAllFactors factor clause, pairs (len clause))"
  by (simp add: computeAllFactors_traced_def computeAllFactors_def traced_outer_eq pairs_def)

text \<open>
  C4. The number of resolvents returned plus the number of candidate pairs for which the
  resolution rule returns \<^verbatim>\<open>None\<close> is the sum, over the literal positions, of the number
  of partners the clause set yields. \<^verbatim>\<open>computeAllFactors\<close> calls the factoring rule
  exactly once on each pair \<open>(i, j)\<close> with \<open>i < j < n\<close>, \<open>n (n - 1) / 2\<close> calls in all,
  and, the rule being one whose factors have a literal (a factor of a clause keeps at
  least one), returns every factor the rule produces, in the order of the calls.
\<close>

theorem enumeration_counts:
  assumes keeps: "\<forall>i j c. i < j \<and> j < len clause \<and> factor clause i j = Some c \<longrightarrow> truthy c"
  shows "length (computeAllResolvents resolution clause cs) +
     (\<Sum>lit\<leftarrow>[0..<len clause].
        length (filter (\<lambda>(cl2, lit2). resolution clause lit cl2 lit2 = None)
                  (cs (getLiteral clause lit)))) =
   (\<Sum>lit\<leftarrow>[0..<len clause]. length (cs (getLiteral clause lit)))
   \<and> computeAllFactors_traced factor clause =
       (computeAllFactors factor clause, pairs (len clause))
   \<and> set (pairs (len clause)) = {(i, j). i < j \<and> j < len clause}
   \<and> distinct (pairs (len clause))
   \<and> length (pairs (len clause)) = len clause * (len clause - 1) div 2
   \<and> computeAllFactors factor clause =
       map (\<lambda>(i, j). the (factor clause i j))
         (filter (\<lambda>(i, j). factor clause i j \<noteq> None) (pairs (len clause)))"
proof (intro conjI)
  show "length (computeAllResolvents resolution clause cs) +
     (\<Sum>lit\<leftarrow>[0..<len clause].
        length (filter (\<lambda>(cl2, lit2). resolution clause lit cl2 lit2 = None)
                  (cs (getLiteral clause lit)))) =
   (\<Sum>lit\<leftarrow>[0..<len clause]. length (cs (getLiteral clause lit)))"
    unfolding computeAllResolvents_def by (rule length_resolvents)
  show "computeAllFactors_traced factor clause =
       (computeAllFactors factor clause, pairs (len clause))"
    by (rule traced_as_pairs)
  show "set (pairs (len clause)) = {(i, j). i < j \<and> j < len clause}"
    by (rule set_pairs)
  show "distinct (pairs (len clause))"
    by (rule distinct_pairs)
  show "length (pairs (len clause)) = len clause * (len clause - 1) div 2"
    by (rule length_pairs)
  have "is_true (factor clause i j) = (factor clause i j \<noteq> None)"
    if "(i, j) \<in> set (pairs (len clause))" for i j
  proof (cases "factor clause i j")
    case None
    then show ?thesis by (simp add: is_true_def)
  next
    case (Some c)
    from that have "i < j" "j < len clause" by (simp_all add: set_pairs)
    with keeps Some have "truthy c" by blast
    with Some show ?thesis by (simp add: is_true_def)
  qed
  then have "filter (\<lambda>(i, j). is_true (factor clause i j)) (pairs (len clause)) =
      filter (\<lambda>(i, j). factor clause i j \<noteq> None) (pairs (len clause))"
    by (intro filter_cong refl) auto
  then show "computeAllFactors factor clause =
       map (\<lambda>(i, j). the (factor clause i j))
         (filter (\<lambda>(i, j). factor clause i j \<noteq> None) (pairs (len clause)))"
    by (simp only: factors_as_filter)
qed

theorem enumeration_counts_witness:
  "without_literal two_literals 0 1 = Some \<lparr>literals = [Literal (Fn ''p'' [Var ''X'']) False]\<rparr>
   \<and> truthy \<lparr>literals = [Literal (Fn ''p'' [Var ''X'']) False]\<rparr>
   \<and> computeAllFactors_traced without_literal two_literals =
       ([\<lparr>literals = [Literal (Fn ''p'' [Var ''X'']) False]\<rparr>], [(0, 1)])
   \<and> computeAllFactors without_literal two_literals =
       [\<lparr>literals = [Literal (Fn ''p'' [Var ''X'']) False]\<rparr>]
   \<and> pairs (len two_literals) = [(0, 1)]
   \<and> computeAllResolvents second_only two_literals both_positions = [two_literals, two_literals]
   \<and> length (computeAllResolvents second_only two_literals both_positions) + (1 + 1) = 2 + 2"
proof -
  have l: "len two_literals = 2"
    by (simp add: len_def two_literals_def)
  have w: "without_literal two_literals 0 1 = Some \<lparr>literals = [Literal (Fn ''p'' [Var ''X'']) False]\<rparr>"
    by (simp add: without_literal_def l) (simp add: two_literals_def)
  have t: "\<forall>i j c. i < j \<and> j < len two_literals \<and> without_literal two_literals i j = Some c
      \<longrightarrow> truthy c"
  proof (intro allI impI, elim conjE)
    fix i j c
    assume "i < j" "j < len two_literals" and s: "without_literal two_literals i j = Some c"
    with l have "i = 0" "j = 1" by simp_all
    with s w show "truthy c" by (simp add: truthy_def len_def)
  qed
  have p: "pairs (len two_literals) = [(0, 1)]"
    by (simp add: l pairs_def upt_rec)
  note e = enumeration_counts [of two_literals without_literal second_only both_positions, OF t]
  have w': "without_literal two_literals 0 (Suc 0) =
      Some \<lparr>literals = [Literal (Fn ''p'' [Var ''X'']) False]\<rparr>"
    using w by simp
  from e have f: "computeAllFactors without_literal two_literals =
       [\<lparr>literals = [Literal (Fn ''p'' [Var ''X'']) False]\<rparr>]"
    by (simp add: p w')
  from e have tr: "computeAllFactors_traced without_literal two_literals =
       ([\<lparr>literals = [Literal (Fn ''p'' [Var ''X'']) False]\<rparr>], [(0, 1)])"
    by (simp add: p f)
  have r: "computeAllResolvents second_only two_literals both_positions = [two_literals, two_literals]"
    by (simp add: computeAllResolvents_def l upt_rec both_positions_def second_only_def)
  have tt: "truthy \<lparr>literals = [Literal (Fn ''p'' [Var ''X'']) False]\<rparr>"
    by (simp add: truthy_def len_def)
  from w tt tr f p r show ?thesis by simp
qed

text \<open>
  C10. \<^verbatim>\<open>computeAllResolvents\<close> keeps every result of the resolution rule that is not
  \<^verbatim>\<open>None\<close>, \<^verbatim>\<open>computeAllFactors\<close> only the results of the factoring rule whose truth
  value is true; \<^verbatim>\<open>None\<close> is false and a clause is true exactly when it has a literal.
  So an empty clause is collected as a resolvent and dropped as a factor.
\<close>

theorem filters_asymmetric:
  "computeAllResolvents resolution clause cs =
     concat (map (\<lambda>lit. map the (filter (\<lambda>r. r \<noteq> None)
               (map (\<lambda>(cl2, lit2). resolution clause lit cl2 lit2)
                  (cs (getLiteral clause lit))))) [0..<len clause])
   \<and> computeAllFactors factor clause =
     concat (map (\<lambda>i. map the (filter is_true
               (map (\<lambda>j. factor clause i j) [i + 1..<len clause]))) [0..<len clause])
   \<and> is_true None = False
   \<and> is_true (Some c) = (len c \<noteq> 0)
   \<and> computeAllResolvents (\<lambda>c1 i c2 j. Some empty_clause) two_literals (\<lambda>l. [(two_literals, 0)])
       = [empty_clause, empty_clause]
   \<and> computeAllFactors (\<lambda>c1 i j. Some empty_clause) two_literals = []"
proof (intro conjI)
  show "computeAllResolvents resolution clause cs =
     concat (map (\<lambda>lit. map the (filter (\<lambda>r. r \<noteq> None)
               (map (\<lambda>(cl2, lit2). resolution clause lit cl2 lit2)
                  (cs (getLiteral clause lit))))) [0..<len clause])"
    by (simp add: computeAllResolvents_def resolvents_of_literals_eq)
  show "computeAllFactors factor clause =
     concat (map (\<lambda>i. map the (filter is_true
               (map (\<lambda>j. factor clause i j) [i + 1..<len clause]))) [0..<len clause])"
    by (simp add: computeAllFactors_def factors_outer_eq)
  show "is_true None = False" by (simp add: is_true_def)
  show "is_true (Some c) = (len c \<noteq> 0)" by (simp add: is_true_def truthy_def)
  show "computeAllResolvents (\<lambda>c1 i c2 j. Some empty_clause) two_literals (\<lambda>l. [(two_literals, 0)])
       = [empty_clause, empty_clause]"
    by (simp add: computeAllResolvents_def two_literals_def len_def)
  show "computeAllFactors (\<lambda>c1 i j. Some empty_clause) two_literals = []"
    by (simp add: computeAllFactors_def two_literals_def empty_clause_def len_def
        is_true_def truthy_def)
qed

end
